theory Spec2Isabelle
  imports Main
begin

section \<open>The tag vocabulary of the ICU data build tool\<close>

text \<open>
  The module \<^verbatim>\<open>buildtool/__init__.py\<close> consists of seven statements of the form
  \<^verbatim>\<open>InFile = namedtuple("InFile", ["filename"])\<close>.
  Everything the module does is therefore what \<^verbatim>\<open>collections.namedtuple\<close> does: it
  builds a subclass of \<^verbatim>\<open>tuple\<close> whose instances are tuples that carry their class.
  The embedding has three layers:
  \<^item> Python values, with the equality, hashing, length and item protocol of tuples;
  \<^item> the class factory \<^verbatim>\<open>namedtuple\<close> and the operations of the classes it returns;
  \<^item> the module itself, as the list of its statements and their execution.
\<close>

subsection \<open>Values\<close>

datatype error = TypeError | ValueError | AttributeError | IndexError | KeyError

text \<open>
  The class object returned by \<^verbatim>\<open>namedtuple(typename, field_names)\<close>: its
  \<^verbatim>\<open>__name__\<close> and its \<^verbatim>\<open>_fields\<close>. The module creates each class once and under
  a name of its own, so two of its class objects are identical exactly when these
  records are equal.
\<close>

record ntclass =
  typename :: string
  field_names :: "string list"

datatype pytype =
    NoneType | BoolType | IntType | FloatType | StrType | ListType | TupleType | TypeType
  | NamedTuple ntclass

text \<open>
  A tuple object is \<open>TupleV c items\<close>: \<open>c = None\<close> for a plain tuple,
  \<open>c = Some cls\<close> for an instance of the namedtuple class \<open>cls\<close>. Items are held
  by value, so a list inside a tuple stands for its contents at that moment; changing a
  list through another reference to it is outside the model. Strings are ASCII. Of the
  floats only the NaN objects are modelled: \<open>NanV i\<close> is a float that is not a number,
  and \<open>i\<close> is the identity of the object, so that \<open>NanV i\<close> and \<open>NanV j\<close> are
  the same object exactly when \<open>i = j\<close>. They are the values that are not equal to
  themselves.
\<close>

datatype pyval =
    NoneV
  | BoolV bool
  | IntV int
  | NanV nat
  | StrV string
  | ListV "pyval list"
  | TupleV "ntclass option" "pyval list"
  | ClassV pytype

fun type_of :: "pyval \<Rightarrow> pytype" where
  "type_of NoneV = NoneType"
| "type_of (BoolV b) = BoolType"
| "type_of (IntV n) = IntType"
| "type_of (NanV i) = FloatType"
| "type_of (StrV s) = StrType"
| "type_of (ListV xs) = ListType"
| "type_of (TupleV None xs) = TupleType"
| "type_of (TupleV (Some cls) xs) = NamedTuple cls"
| "type_of (ClassV t) = TypeType"

text \<open>
  \<^verbatim>\<open>isinstance(obj, t)\<close>: the type of \<open>obj\<close> is \<open>t\<close> or a subclass of it. Every
  namedtuple class is a subclass of \<^verbatim>\<open>tuple\<close>, and \<^verbatim>\<open>bool\<close> of \<^verbatim>\<open>int\<close>.
\<close>

fun issubclass :: "pytype \<Rightarrow> pytype \<Rightarrow> bool" where
  "issubclass (NamedTuple c) TupleType = True"
| "issubclass BoolType IntType = True"
| "issubclass s t = (s = t)"

definition isinstance :: "pyval \<Rightarrow> pytype \<Rightarrow> bool" where
  "isinstance obj t = issubclass (type_of obj) t"

text \<open>
  \<^verbatim>\<open>x is y\<close>, as far as the model needs it. Only NaN objects carry an identity:
  every other modelled value is equal to itself under \<^verbatim>\<open>==\<close>, so that for it the
  test for identity that precedes a comparison of items changes no result.
\<close>

fun py_is :: "pyval \<Rightarrow> pyval \<Rightarrow> bool" where
  "py_is (NanV i) (NanV j) = (i = j)"
| "py_is _ _ = False"

text \<open>
  The operator \<^verbatim>\<open>==\<close>. A namedtuple class defines no \<^verbatim>\<open>__eq__\<close>, so its instances
  are compared by \<^verbatim>\<open>tuple.__eq__\<close>: the same length and, position by position, items
  that are the same object or are equal. The classes of the two tuples are not looked
  at. A NaN is equal to nothing, itself included. \<^verbatim>\<open>bool\<close> is a subclass of
  \<^verbatim>\<open>int\<close>, with \<^verbatim>\<open>True == 1\<close>.
\<close>

fun py_eq :: "pyval \<Rightarrow> pyval \<Rightarrow> bool" where
  "py_eq NoneV NoneV = True"
| "py_eq (BoolV a) (BoolV b) = (a = b)"
| "py_eq (BoolV a) (IntV n) = (n = (if a then 1 else 0))"
| "py_eq (IntV n) (BoolV a) = (n = (if a then 1 else 0))"
| "py_eq (IntV a) (IntV b) = (a = b)"
| "py_eq (StrV a) (StrV b) = (a = b)"
| "py_eq (ListV xs) (ListV ys) = list_all2 (\<lambda>x y. py_is x y \<or> py_eq x y) xs ys"
| "py_eq (TupleV c xs) (TupleV d ys) = list_all2 (\<lambda>x y. py_is x y \<or> py_eq x y) xs ys"
| "py_eq (ClassV s) (ClassV t) = (s = t)"
| "py_eq _ _ = False"

definition py_ne :: "pyval \<Rightarrow> pyval \<Rightarrow> bool" where
  "py_ne x y = (\<not> py_eq x y)"

text \<open>
  The comparison that tuples, lists, sets and dictionaries apply to their items and
  keys: identity first, then \<^verbatim>\<open>==\<close>.
\<close>

definition same_or_eq :: "pyval \<Rightarrow> pyval \<Rightarrow> bool" where
  "same_or_eq x y = (py_is x y \<or> py_eq x y)"

text \<open>
  \<^verbatim>\<open>hash\<close>. The hash of a string is salted by the running process and the hash of a
  class or of a NaN object is taken from its address, so they, and the function that
  mixes the hashes of a tuple's items, are parameters of a run. A list has no hash; a
  tuple hashes its items in order and fails where the first of them fails. The class of
  the tuple takes no part.
\<close>

record hashing =
  none_hash :: int
  int_hash :: "int \<Rightarrow> int"
  nan_hash :: "nat \<Rightarrow> int"
  str_hash :: "string \<Rightarrow> int"
  cls_hash :: "pytype \<Rightarrow> int"
  mix :: "int list \<Rightarrow> int"

fun collect :: "(error + 'a) list \<Rightarrow> error + 'a list" where
  "collect [] = Inr []"
| "collect (Inl e # rs) = Inl e"
| "collect (Inr v # rs) = (case collect rs of Inl e \<Rightarrow> Inl e | Inr vs \<Rightarrow> Inr (v # vs))"

primrec py_hash :: "hashing \<Rightarrow> pyval \<Rightarrow> error + int" where
  "py_hash H NoneV = Inr (none_hash H)"
| "py_hash H (BoolV b) = Inr (int_hash H (if b then 1 else 0))"
| "py_hash H (IntV n) = Inr (int_hash H n)"
| "py_hash H (NanV i) = Inr (nan_hash H i)"
| "py_hash H (StrV s) = Inr (str_hash H s)"
| "py_hash H (ListV xs) = Inl TypeError"
| "py_hash H (TupleV c xs) =
     (case collect (map (py_hash H) xs) of
        Inl e \<Rightarrow> Inl e
      | Inr hs \<Rightarrow> Inr (mix H hs))"
| "py_hash H (ClassV t) = Inr (cls_hash H t)"

primrec hashable :: "pyval \<Rightarrow> bool" where
  "hashable NoneV = True"
| "hashable (BoolV b) = True"
| "hashable (IntV n) = True"
| "hashable (NanV i) = True"
| "hashable (StrV s) = True"
| "hashable (ListV xs) = False"
| "hashable (TupleV c xs) = list_all hashable xs"
| "hashable (ClassV t) = True"

text \<open>
  \<^verbatim>\<open>len(obj)\<close>, and \<^verbatim>\<open>obj[i]\<close> on a tuple, where a negative index counts from the
  end. Subscription is modelled for tuples only.
\<close>

fun py_len :: "pyval \<Rightarrow> error + int" where
  "py_len (StrV s) = Inr (int (length s))"
| "py_len (ListV xs) = Inr (int (length xs))"
| "py_len (TupleV c xs) = Inr (int (length xs))"
| "py_len _ = Inl TypeError"

definition tuple_item :: "pyval list \<Rightarrow> int \<Rightarrow> error + pyval" where
  "tuple_item xs i =
     (if 0 \<le> i \<and> i < int (length xs) then Inr (xs ! nat i)
      else if i < 0 \<and> - int (length xs) \<le> i then Inr (xs ! nat (i + int (length xs)))
      else Inl IndexError)"

fun py_getitem :: "pyval \<Rightarrow> int \<Rightarrow> error + pyval" where
  "py_getitem (TupleV c xs) i = tuple_item xs i"

subsection \<open>Sets and dictionaries\<close>

text \<open>
  A set keeps, for each element, its hash and the element. \<^verbatim>\<open>s.add(x)\<close> hashes
  \<open>x\<close>, which may raise, and inserts \<open>x\<close> unless an element with the same hash
  that is \<open>x\<close> or compares equal to \<open>x\<close> is present. A dictionary does the same with
  its keys; storing under a key that is present replaces the value and keeps the old key.
\<close>

type_synonym pyset = "(int \<times> pyval) list"

definition set_add :: "hashing \<Rightarrow> pyval \<Rightarrow> pyset \<Rightarrow> error + pyset" where
  "set_add H x S =
     (case py_hash H x of
        Inl e \<Rightarrow> Inl e
      | Inr h \<Rightarrow>
          if list_ex (\<lambda>(h', y). h' = h \<and> same_or_eq y x) S then Inr S
          else Inr (S @ [(h, x)]))"

text \<open>The set display \<^verbatim>\<open>{x1, ..., xn}\<close>: the elements are added from left to right.\<close>

fun set_display :: "hashing \<Rightarrow> pyset \<Rightarrow> pyval list \<Rightarrow> error + pyset" where
  "set_display H S [] = Inr S"
| "set_display H S (x # xs) =
     (case set_add H x S of
        Inl e \<Rightarrow> Inl e
      | Inr S' \<Rightarrow> set_display H S' xs)"

type_synonym pydict = "(int \<times> pyval \<times> pyval) list"

definition dict_setitem :: "hashing \<Rightarrow> pyval \<Rightarrow> pyval \<Rightarrow> pydict \<Rightarrow> error + pydict" where
  "dict_setitem H k v D =
     (case py_hash H k of
        Inl e \<Rightarrow> Inl e
      | Inr h \<Rightarrow>
          if list_ex (\<lambda>(h', k', v'). h' = h \<and> same_or_eq k' k) D
          then Inr (map (\<lambda>(h', k', v').
                 if h' = h \<and> same_or_eq k' k then (h', k', v) else (h', k', v')) D)
          else Inr (D @ [(h, k, v)]))"

definition dict_getitem :: "hashing \<Rightarrow> pyval \<Rightarrow> pydict \<Rightarrow> error + pyval" where
  "dict_getitem H k D =
     (case py_hash H k of
        Inl e \<Rightarrow> Inl e
      | Inr h \<Rightarrow>
          (case find (\<lambda>(h', k', v'). h' = h \<and> same_or_eq k' k) D of
             None \<Rightarrow> Inl KeyError
           | Some (h', k', v') \<Rightarrow> Inr v'))"

subsection \<open>The class factory\<close>

text \<open>
  \<^verbatim>\<open>namedtuple(typename, field_names)\<close> with a list of field names and no further
  argument, as the module calls it. The type name and every field name must be an
  identifier and no keyword; a field name must not start with an underscore and must not
  occur twice. Otherwise \<^verbatim>\<open>ValueError\<close> is raised.
\<close>

definition kwlist :: "string list" where
  "kwlist =
     [''False'', ''None'', ''True'', ''and'', ''as'', ''assert'', ''async'', ''await'',
      ''break'', ''class'', ''continue'', ''def'', ''del'', ''elif'', ''else'', ''except'',
      ''finally'', ''for'', ''from'', ''global'', ''if'', ''import'', ''in'', ''is'',
      ''lambda'', ''nonlocal'', ''not'', ''or'', ''pass'', ''raise'', ''return'', ''try'',
      ''while'', ''with'', ''yield'']"

definition iskeyword :: "string \<Rightarrow> bool" where
  "iskeyword s = (s \<in> set kwlist)"

definition id_start :: "char \<Rightarrow> bool" where
  "id_start c = (c \<in> set ''abcdefghijklmnopqrstuvwxyzABCDEFGHIJKLMNOPQRSTUVWXYZ_'')"

definition id_continue :: "char \<Rightarrow> bool" where
  "id_continue c = (id_start c \<or> c \<in> set ''0123456789'')"

fun isidentifier :: "string \<Rightarrow> bool" where
  "isidentifier [] = False"
| "isidentifier (c # cs) = (id_start c \<and> list_all id_continue cs)"

fun startswith_underscore :: "string \<Rightarrow> bool" where
  "startswith_underscore [] = False"
| "startswith_underscore (c # cs) = (c = CHR ''_'')"

definition namedtuple :: "string \<Rightarrow> string list \<Rightarrow> error + ntclass" where
  "namedtuple tn fns =
     (if list_ex (\<lambda>n. iskeyword n \<or> \<not> isidentifier n) (tn # fns) then Inl ValueError
      else if list_ex startswith_underscore fns then Inl ValueError
      else if \<not> distinct fns then Inl ValueError
      else Inr \<lparr>typename = tn, field_names = fns\<rparr>)"

subsection \<open>Operations of a namedtuple class\<close>

text \<open>
  The call \<^verbatim>\<open>cls(*args, **kwds)\<close>. The generated \<^verbatim>\<open>__new__\<close> has one parameter per
  field and no defaults: Python binds the positional arguments to the first fields and
  the keyword arguments to the others, and raises \<^verbatim>\<open>TypeError\<close> when there are too
  many arguments, an unknown keyword, two values for one field, or a field without a
  value. The new tuple holds the arguments as they are.
\<close>

definition nt_new :: "ntclass \<Rightarrow> pyval list \<Rightarrow> (string \<times> pyval) list \<Rightarrow> error + pyval" where
  "nt_new cls args kwds =
     (let names = field_names cls; n = length args; rest = drop n names; keys = map fst kwds
      in if length names < n then Inl TypeError
         else if \<not> distinct keys then Inl TypeError
         else if list_ex (\<lambda>k. k \<notin> set names) keys then Inl TypeError
         else if list_ex (\<lambda>k. k \<in> set (take n names)) keys then Inl TypeError
         else if list_ex (\<lambda>f. f \<notin> set keys) rest then Inl TypeError
         else Inr (TupleV (Some cls) (args @ map (\<lambda>f. the (map_of kwds f)) rest)))"

text \<open>
  Reading an attribute. The class holds, for the field at position \<open>i\<close>, a property
  that returns item \<open>i\<close> of the tuple. \<^verbatim>\<open>__class__\<close> is the object's class and
  \<^verbatim>\<open>_fields\<close> the tuple of the field names; no field can have either name, since a
  field name does not start with an underscore. The methods that every tuple has
  (\<^verbatim>\<open>count\<close>, \<^verbatim>\<open>index\<close>, \<^verbatim>\<open>_replace\<close> and the like) are values the model does not
  have: reading one of them is outside the model, and \<open>py_getattr\<close> is to be read
  for the other names only, where a name that is no field raises
  \<^verbatim>\<open>AttributeError\<close>.
\<close>

fun index_of :: "'a \<Rightarrow> 'a list \<Rightarrow> nat option" where
  "index_of x [] = None"
| "index_of x (y # ys) = (if x = y then Some 0 else map_option Suc (index_of x ys))"

fun py_getattr :: "pyval \<Rightarrow> string \<Rightarrow> error + pyval" where
  "py_getattr (TupleV (Some cls) xs) name =
     (case index_of name (field_names cls) of
        None \<Rightarrow>
          if name = ''__class__'' then Inr (ClassV (NamedTuple cls))
          else if name = ''_fields'' then Inr (TupleV None (map StrV (field_names cls)))
          else Inl AttributeError
      | Some i \<Rightarrow> tuple_item xs (int i))"
| "py_getattr (TupleV None xs) name = Inl AttributeError"

text \<open>
  Assignment \<^verbatim>\<open>obj.name = v\<close> on an instance; the result is the object afterwards.
  The class has \<^verbatim>\<open>__slots__ = ()\<close> and its field properties have no setter, so
  every name raises \<^verbatim>\<open>AttributeError\<close>, with one exception that the interpreter
  grants every object of a class defined at run time: \<^verbatim>\<open>__class__\<close> may be set to
  another such class of the same layout, and every namedtuple class has the layout of
  \<^verbatim>\<open>tuple\<close>. Setting it to a built-in type, or to a value that is no class,
  raises \<^verbatim>\<open>TypeError\<close>.
\<close>

fun py_setattr :: "pyval \<Rightarrow> string \<Rightarrow> pyval \<Rightarrow> error + pyval" where
  "py_setattr (TupleV (Some cls) xs) name v =
     (if name = ''__class__'' then
        (case v of
           ClassV (NamedTuple cls') \<Rightarrow> Inr (TupleV (Some cls') xs)
         | _ \<Rightarrow> Inl TypeError)
      else Inl AttributeError)"

text \<open>
  \<^verbatim>\<open>del obj.name\<close>, \<^verbatim>\<open>obj[i] = v\<close> and \<^verbatim>\<open>del obj[i]\<close> always raise. For the
  last two the interpreter first converts the index to a machine integer (64 bits
  here), which raises \<^verbatim>\<open>IndexError\<close> when it does not fit, and only then finds that
  a tuple has no item assignment.
\<close>

definition fits_index :: "int \<Rightarrow> bool" where
  "fits_index i = (- (2 ^ 63) \<le> i \<and> i < 2 ^ 63)"

fun py_delattr :: "pyval \<Rightarrow> string \<Rightarrow> error + pyval" where
  "py_delattr (TupleV (Some cls) xs) name =
     (if name = ''__class__'' then Inl TypeError else Inl AttributeError)"

fun py_setitem :: "pyval \<Rightarrow> int \<Rightarrow> pyval \<Rightarrow> error + pyval" where
  "py_setitem (TupleV c xs) i v = (if fits_index i then Inl TypeError else Inl IndexError)"

fun py_delitem :: "pyval \<Rightarrow> int \<Rightarrow> error + pyval" where
  "py_delitem (TupleV c xs) i = (if fits_index i then Inl TypeError else Inl IndexError)"

text \<open>
  \<^verbatim>\<open>cls._make(iterable)\<close> builds an instance from a sequence and checks its length.
  \<^verbatim>\<open>obj._replace(**kwds)\<close> pairs the field names with the items, takes the value
  from \<open>kwds\<close> where there is one, passes the result to \<^verbatim>\<open>_make\<close> and then raises
  \<^verbatim>\<open>ValueError\<close> (\<^verbatim>\<open>TypeError\<close> from Python 3.13 on) if a keyword is left over.
  It returns a new object.
\<close>

definition nt_make :: "ntclass \<Rightarrow> pyval list \<Rightarrow> error + pyval" where
  "nt_make cls xs =
     (if length xs \<noteq> length (field_names cls) then Inl TypeError
      else Inr (TupleV (Some cls) xs))"

fun nt_replace :: "pyval \<Rightarrow> (string \<times> pyval) list \<Rightarrow> error + pyval" where
  "nt_replace (TupleV (Some cls) xs) kwds =
     (case nt_make cls
             (map (\<lambda>(name, x). case map_of kwds name of None \<Rightarrow> x | Some v \<Rightarrow> v)
               (zip (field_names cls) xs)) of
        Inl e \<Rightarrow> Inl e
      | Inr r \<Rightarrow>
          if list_ex (\<lambda>k. k \<notin> set (field_names cls)) (map fst kwds) then Inl ValueError
          else Inr r)"

subsection \<open>Operations as steps on a world\<close>

text \<open>
  Objects live in a heap, at addresses; what a program has written to its output
  streams and files is the other part of the world. An operation on the object at an
  address returns a value or raises, and leaves a world behind. A raised exception
  leaves the world as it was. No operation of a tuple or of a namedtuple class prints
  or writes a file.
\<close>

type_synonym ref = nat

record world =
  heap :: "ref \<Rightarrow> pyval"
  printed :: "string list"

datatype op =
    GetAttr string
  | SetAttr string pyval
  | DelAttr string
  | GetItem int
  | SetItem int pyval
  | DelItem int
  | Len
  | Hash
  | Eq pyval
  | Ne pyval
  | Replace "(string \<times> pyval) list"

definition written :: "ref \<Rightarrow> world \<Rightarrow> error + pyval \<Rightarrow> (error + pyval) \<times> world" where
  "written a w r =
     (case r of
        Inl e \<Rightarrow> (Inl e, w)
      | Inr obj \<Rightarrow> (Inr NoneV, w\<lparr>heap := (heap w)(a := obj)\<rparr>))"

fun exec :: "hashing \<Rightarrow> op \<Rightarrow> ref \<Rightarrow> world \<Rightarrow> (error + pyval) \<times> world" where
  "exec H (GetAttr name) a w = (py_getattr (heap w a) name, w)"
| "exec H (SetAttr name v) a w = written a w (py_setattr (heap w a) name v)"
| "exec H (DelAttr name) a w = written a w (py_delattr (heap w a) name)"
| "exec H (GetItem i) a w = (py_getitem (heap w a) i, w)"
| "exec H (SetItem i v) a w = written a w (py_setitem (heap w a) i v)"
| "exec H (DelItem i) a w = written a w (py_delitem (heap w a) i)"
| "exec H Len a w = (map_sum id IntV (py_len (heap w a)), w)"
| "exec H Hash a w = (map_sum id IntV (py_hash H (heap w a)), w)"
| "exec H (Eq v) a w = (Inr (BoolV (py_eq (heap w a) v)), w)"
| "exec H (Ne v) a w = (Inr (BoolV (py_ne (heap w a) v)), w)"
| "exec H (Replace kwds) a w = (nt_replace (heap w a) kwds, w)"

text \<open>The one operation that can retag an object: an assignment to \<^verbatim>\<open>__class__\<close>.\<close>

fun sets_class :: "op \<Rightarrow> bool" where
  "sets_class (SetAttr name v) = (name = ''__class__'')"
| "sets_class _ = False"

subsection \<open>The module\<close>

text \<open>
  Each statement of the module is \<^verbatim>\<open>target = namedtuple(typename, field_names)\<close>.
  Running the module runs its statements in order and binds each target in the module's
  namespace; an exception ends the run.
\<close>

record stmt =
  target :: string
  arg_typename :: string
  arg_field_names :: "string list"

definition buildtool :: "stmt list" where
  "buildtool =
     [\<lparr>target = ''InFile'', arg_typename = ''InFile'', arg_field_names = [''filename'']\<rparr>,
      \<lparr>target = ''TmpFile'', arg_typename = ''TmpFile'', arg_field_names = [''filename'']\<rparr>,
      \<lparr>target = ''OutFile'', arg_typename = ''OutFile'', arg_field_names = [''filename'']\<rparr>,
      \<lparr>target = ''PkgFile'', arg_typename = ''PkgFile'', arg_field_names = [''filename'']\<rparr>,
      \<lparr>target = ''IcuTool'', arg_typename = ''IcuTool'', arg_field_names = [''name'']\<rparr>,
      \<lparr>target = ''SystemTool'', arg_typename = ''SystemTool'', arg_field_names = [''name'']\<rparr>,
      \<lparr>target = ''DepTarget'', arg_typename = ''DepTarget'', arg_field_names = [''name'']\<rparr>]"

fun run_module :: "(string \<times> ntclass) list \<Rightarrow> stmt list \<Rightarrow> error + (string \<times> ntclass) list" where
  "run_module ns [] = Inr ns"
| "run_module ns (s # ss) =
     (case namedtuple (arg_typename s) (arg_field_names s) of
        Inl e \<Rightarrow> Inl e
      | Inr cls \<Rightarrow> run_module (ns @ [(target s, cls)]) ss)"

text \<open>
  The seven class objects that running the module binds to its seven targets (lemma
  \<open>run_module_buildtool\<close> below), and the list of them in the order of the statements.
\<close>

definition InFile :: ntclass where
  "InFile = \<lparr>typename = ''InFile'', field_names = [''filename'']\<rparr>"

definition TmpFile :: ntclass where
  "TmpFile = \<lparr>typename = ''TmpFile'', field_names = [''filename'']\<rparr>"

definition OutFile :: ntclass where
  "OutFile = \<lparr>typename = ''OutFile'', field_names = [''filename'']\<rparr>"

definition PkgFile :: ntclass where
  "PkgFile = \<lparr>typename = ''PkgFile'', field_names = [''filename'']\<rparr>"

definition IcuTool :: ntclass where
  "IcuTool = \<lparr>typename = ''IcuTool'', field_names = [''name'']\<rparr>"

definition SystemTool :: ntclass where
  "SystemTool = \<lparr>typename = ''SystemTool'', field_names = [''name'']\<rparr>"

definition DepTarget :: ntclass where
  "DepTarget = \<lparr>typename = ''DepTarget'', field_names = [''name'']\<rparr>"

definition variants :: "ntclass list" where
  "variants = [InFile, TmpFile, OutFile, PkgFile, IcuTool, SystemTool, DepTarget]"

definition with_field :: "string \<Rightarrow> ntclass list \<Rightarrow> ntclass list" where
  "with_field f cs = filter (\<lambda>c. field_names c = [f]) cs"

text \<open>\<^verbatim>\<open>V(s)\<close>: the constructor called with one positional value.\<close>

definition mk :: "ntclass \<Rightarrow> pyval \<Rightarrow> error + pyval" where
  "mk V s = nt_new V [s] []"

text \<open>A hashing and a world to run examples in.\<close>

definition example_hashing :: hashing where
  "example_hashing =
     \<lparr>none_hash = 0, int_hash = (\<lambda>n. n), nan_hash = int, str_hash = (\<lambda>s. int (length s)),
      cls_hash = (\<lambda>t. 1), mix = sum_list\<rparr>"

definition example_world :: world where
  "example_world =
     \<lparr>heap = (\<lambda>a. NoneV)(0 := TupleV (Some InFile) [StrV ''x'']), printed = []\<rparr>"

section \<open>Properties\<close>

subsection \<open>Auxiliary facts\<close>

lemmas class_defs =
  InFile_def TmpFile_def OutFile_def PkgFile_def IcuTool_def SystemTool_def DepTarget_def

text \<open>Running the module raises nothing and binds the seven classes.\<close>

lemma run_module_buildtool:
  "run_module [] buildtool =
     Inr [(''InFile'', InFile), (''TmpFile'', TmpFile), (''OutFile'', OutFile),
          (''PkgFile'', PkgFile), (''IcuTool'', IcuTool), (''SystemTool'', SystemTool),
          (''DepTarget'', DepTarget)]"
  by (simp add: buildtool_def namedtuple_def class_defs iskeyword_def kwlist_def
      id_start_def id_continue_def)

text \<open>The factory does reject names: a keyword, an underscore, a repeated field.\<close>

lemma namedtuple_rejects:
  "namedtuple ''A'' [''class''] = Inl ValueError"
  "namedtuple ''A'' [''_x''] = Inl ValueError"
  "namedtuple ''A'' [''x'', ''x''] = Inl ValueError"
  "namedtuple ''1A'' [''x''] = Inl ValueError"
  by (simp_all add: namedtuple_def iskeyword_def kwlist_def id_start_def id_continue_def)

lemma variants_one_field:
  "V \<in> set variants \<Longrightarrow> field_names V = [''filename''] \<or> field_names V = [''name'']"
  by (auto simp: variants_def class_defs)

lemma mk_one: "field_names V = [f] \<Longrightarrow> mk V s = Inr (TupleV (Some V) [s])"
  by (simp add: mk_def nt_new_def)

lemma mk_variant: "V \<in> set variants \<Longrightarrow> mk V s = Inr (TupleV (Some V) [s])"
  using variants_one_field mk_one by blast

text \<open>The constructor does fail on a wrong number of arguments, and takes its field by keyword.\<close>

lemma nt_new_arity:
  "nt_new InFile [] [] = Inl TypeError"
  "nt_new InFile [s, t] [] = Inl TypeError"
  "nt_new InFile [] [(''name'', s)] = Inl TypeError"
  "nt_new InFile [s] [(''filename'', t)] = Inl TypeError"
  "nt_new InFile [] [(''filename'', s)] = Inr (TupleV (Some InFile) [s])"
  by (simp_all add: nt_new_def InFile_def)

text \<open>
  Every value is the same as or equal to itself, a NaN by identity only; a tuple is
  equal to every tuple of the same items. Values that are the same or equal have equal
  hashes.
\<close>

lemma py_is_same: "py_is x y \<Longrightarrow> x = y"
  by (cases x; cases y) auto

lemma same_or_eq_refl: "same_or_eq x x"
  unfolding same_or_eq_def
  by (induction x) (auto simp: list_all2_same)

lemma py_eq_same_items: "py_eq (TupleV c xs) (TupleV d xs)"
  using same_or_eq_refl by (simp add: same_or_eq_def list_all2_same)

lemma nan_not_eq: "\<not> py_eq (NanV i) y" "\<not> py_eq x (NanV j)"
  by (cases y; simp) (cases x; simp)

lemma map_hash_cong:
  "list_all2 (\<lambda>x y. f x = g y) xs ys \<Longrightarrow> map f xs = map g ys"
  by (induction xs ys rule: list_all2_induct) auto

lemma py_eq_hash: "py_eq x y \<Longrightarrow> py_hash H x = py_hash H y"
proof (induction x y rule: py_eq.induct)
  case (8 c xs d ys)
  from "8.prems" have items: "list_all2 (\<lambda>x y. py_is x y \<or> py_eq x y) xs ys"
    by simp
  have "list_all2 (\<lambda>x y. py_hash H x = py_hash H y) xs ys"
  proof (rule list.rel_mono_strong [OF items])
    fix x y
    assume "x \<in> set xs" and "y \<in> set ys" and "py_is x y \<or> py_eq x y"
    then show "py_hash H x = py_hash H y"
      using "8.IH" [of x y] py_is_same [of x y] by blast
  qed
  then have "map (py_hash H) xs = map (py_hash H) ys"
    by (rule map_hash_cong)
  then show ?case by simp
qed simp_all

lemma same_or_eq_hash: "same_or_eq x y \<Longrightarrow> py_hash H x = py_hash H y"
  using py_is_same py_eq_hash by (auto simp: same_or_eq_def)

text \<open>
  A value has a hash exactly when it is hashable: it is no list and, if it is a tuple,
  each of its items is hashable.
\<close>

lemma collect_map_Inr:
  "(\<exists>vs. collect (map f xs) = Inr vs) = (\<forall>x\<in>set xs. \<exists>v. f x = Inr v)"
proof (induction xs)
  case Nil
  show ?case by simp
next
  case (Cons x xs)
  show ?case
  proof (cases "f x")
    case (Inl e)
    then show ?thesis by simp
  next
    case (Inr v)
    with Cons show ?thesis by (auto split: sum.splits)
  qed
qed

lemma hashable_iff: "hashable x = (\<exists>h. py_hash H x = Inr h)"
proof (induction x)
  case (TupleV c xs)
  have "(\<exists>h. py_hash H (TupleV c xs) = Inr h) =
        (\<exists>vs. collect (map (py_hash H) xs) = Inr vs)"
    by (auto split: sum.splits)
  also have "\<dots> = (\<forall>x\<in>set xs. \<exists>v. py_hash H x = Inr v)"
    by (rule collect_map_Inr)
  also have "\<dots> = list_all hashable xs"
    using TupleV by (simp add: list_all_iff)
  finally show ?case by simp
qed auto

lemma unhashable_field:
  "py_hash H (TupleV (Some InFile) [ListV xs]) = Inl TypeError"
  "set_add H (TupleV (Some InFile) [ListV xs]) S = Inl TypeError"
  by (simp_all add: set_add_def)

text \<open>
  Records of two variants on the same value have the same hash and compare equal, so a
  set holds only the first of them.
\<close>

lemma variants_collide:
  assumes "py_hash H (TupleV (Some V1) [s]) = Inr h"
  shows "set_display H [] [TupleV (Some V1) [s], TupleV (Some V2) [s]] =
           Inr [(h, TupleV (Some V1) [s])]"
proof -
  have "py_hash H (TupleV (Some V2) [s]) = Inr h"
    using assms by simp
  then show ?thesis
    using assms same_or_eq_refl [of s] by (simp add: set_add_def same_or_eq_def)
qed

text \<open>
  What an operation can do to the world when the object at its address is a record of
  one item: nothing, or, for an assignment to \<^verbatim>\<open>__class__\<close>, a new class on the same
  item.
\<close>

lemma exec_record_cases:
  assumes "heap w a = TupleV (Some V) [s]" and "exec H op a w = (res, w')"
  shows "w' = w \<or>
         (\<exists>V' v. op = SetAttr ''__class__'' v \<and> res = Inr NoneV \<and>
            w' = w\<lparr>heap := (heap w)(a := TupleV (Some V') [s])\<rparr>)"
  using assms
  by (cases op) (auto simp: written_def split: if_splits pyval.splits pytype.splits)

subsection \<open>Equality across the variants\<close>

text \<open>
  C1, as amended. For every value \<open>s\<close> and every two distinct variants \<open>V1\<close> and
  \<open>V2\<close> of the module, both constructors succeed, and the records \<open>V1(s)\<close> and
  \<open>V2(s)\<close> compare equal under \<^verbatim>\<open>==\<close> (and not unequal under \<^verbatim>\<open>!=\<close>): the equality
  of a namedtuple is the equality of tuples and does not look at the class. What tells
  the two records apart is their type: \<open>type(V1(s))\<close> is \<open>V1\<close>, \<open>type(V2(s))\<close> is
  \<open>V2\<close>, these differ, and \<open>V1(s)\<close> is an instance of \<open>V1\<close> and not of \<open>V2\<close>.
\<close>

theorem variants_differ_by_type_only:
  assumes "V1 \<in> set variants" and "V2 \<in> set variants" and "V1 \<noteq> V2"
  shows "\<exists>r1 r2. mk V1 s = Inr r1 \<and> mk V2 s = Inr r2 \<and>
           py_eq r1 r2 \<and> \<not> py_ne r1 r2 \<and>
           type_of r1 = NamedTuple V1 \<and> type_of r2 = NamedTuple V2 \<and>
           type_of r1 \<noteq> type_of r2 \<and>
           isinstance r1 (NamedTuple V1) \<and> \<not> isinstance r1 (NamedTuple V2)"
proof -
  have r1: "mk V1 s = Inr (TupleV (Some V1) [s])"
    using assms(1) by (rule mk_variant)
  have r2: "mk V2 s = Inr (TupleV (Some V2) [s])"
    using assms(2) by (rule mk_variant)
  have eq: "py_eq (TupleV (Some V1) [s]) (TupleV (Some V2) [s])"
    by (rule py_eq_same_items)
  show ?thesis
    using r1 r2 eq assms(3) by (simp add: py_ne_def isinstance_def)
qed

theorem variants_differ_by_type_only_witness:
  "InFile \<in> set variants \<and> OutFile \<in> set variants \<and> InFile \<noteq> OutFile \<and>
   (\<exists>r1 r2. mk InFile (StrV ''x'') = Inr r1 \<and> mk OutFile (StrV ''x'') = Inr r2 \<and>
      py_eq r1 r2 \<and> \<not> py_ne r1 r2 \<and>
      type_of r1 = NamedTuple InFile \<and> type_of r2 = NamedTuple OutFile \<and>
      type_of r1 \<noteq> type_of r2 \<and>
      isinstance r1 (NamedTuple InFile) \<and> \<not> isinstance r1 (NamedTuple OutFile))"
proof -
  have a: "InFile \<in> set variants" by (simp add: variants_def)
  have b: "OutFile \<in> set variants" by (simp add: variants_def)
  have c: "InFile \<noteq> OutFile" by (simp add: InFile_def OutFile_def)
  show ?thesis
    using a b c variants_differ_by_type_only [OF a b c, of "StrV ''x''"] by blast
qed

text \<open>
  C1 as stated fails: \<^verbatim>\<open>InFile("x")\<close> and \<^verbatim>\<open>OutFile("x")\<close> are records of two
  different classes, and \<^verbatim>\<open>InFile("x") == OutFile("x")\<close> is true.
\<close>

theorem InFile_eq_OutFile:
  "mk InFile (StrV ''x'') = Inr (TupleV (Some InFile) [StrV ''x'']) \<and>
   mk OutFile (StrV ''x'') = Inr (TupleV (Some OutFile) [StrV ''x'']) \<and>
   InFile \<noteq> OutFile \<and>
   py_eq (TupleV (Some InFile) [StrV ''x'']) (TupleV (Some OutFile) [StrV ''x'']) \<and>
   \<not> py_ne (TupleV (Some InFile) [StrV ''x'']) (TupleV (Some OutFile) [StrV ''x''])"
  by (simp add: mk_def nt_new_def py_ne_def InFile_def OutFile_def)

subsection \<open>The classes of the module\<close>

text \<open>
  C2, as amended. Running the module binds exactly seven classes, pairwise distinct and
  with pairwise distinct names, each with exactly one field. Four of them, \<open>InFile\<close>,
  \<open>TmpFile\<close>, \<open>OutFile\<close> and \<open>PkgFile\<close>, have the field \<open>filename\<close>; three,
  \<open>IcuTool\<close>, \<open>SystemTool\<close> and \<open>DepTarget\<close>, have the field \<open>name\<close>.
\<close>

theorem seven_marker_types:
  "run_module [] buildtool = Inr (zip (map target buildtool) variants) \<and>
   length variants = 7 \<and> distinct variants \<and> distinct (map typename variants) \<and>
   list_all (\<lambda>V. length (field_names V) = 1) variants \<and>
   with_field ''filename'' variants = [InFile, TmpFile, OutFile, PkgFile] \<and>
   with_field ''name'' variants = [IcuTool, SystemTool, DepTarget]"
  by (simp add: run_module_buildtool)
    (simp add: buildtool_def variants_def with_field_def class_defs)

text \<open>
  C2 as stated fails: the module has seven statements and binds seven classes, not
  eight, and three of them, not four, have the field \<open>name\<close>.
\<close>

theorem not_eight_types:
  "length buildtool = 7 \<and>
   run_module [] buildtool = Inr (zip (map target buildtool) variants) \<and>
   length variants \<noteq> 8 \<and>
   length (with_field ''name'' variants) \<noteq> 4"
  by (simp add: run_module_buildtool)
    (simp add: buildtool_def variants_def with_field_def class_defs)

subsection \<open>Construction and field access\<close>

text \<open>
  C3. For every string \<open>s\<close>: constructing a record of \<open>InFile\<close>, \<open>TmpFile\<close>,
  \<open>OutFile\<close> or \<open>PkgFile\<close> with \<open>s\<close> succeeds and reading its \<open>filename\<close> yields
  \<open>s\<close>; constructing a record of \<open>IcuTool\<close>, \<open>SystemTool\<close> or \<open>DepTarget\<close> with
  \<open>s\<close> succeeds and reading its \<open>name\<close> yields \<open>s\<close>.
\<close>

theorem field_roundtrip:
  assumes "f = ''filename'' \<and> V \<in> set [InFile, TmpFile, OutFile, PkgFile] \<or>
           f = ''name'' \<and> V \<in> set [IcuTool, SystemTool, DepTarget]"
  shows "\<exists>r. mk V (StrV s) = Inr r \<and> py_getattr r f = Inr (StrV s)"
proof -
  from assms have fn: "field_names V = [f]"
    by (auto simp: class_defs)
  then have "mk V (StrV s) = Inr (TupleV (Some V) [StrV s])"
    by (rule mk_one)
  moreover have "py_getattr (TupleV (Some V) [StrV s]) f = Inr (StrV s)"
    using fn by (simp add: tuple_item_def)
  ultimately show ?thesis by simp
qed

theorem field_roundtrip_witness:
  "\<exists>r. mk IcuTool (StrV ''genrb'') = Inr r \<and> py_getattr r ''name'' = Inr (StrV ''genrb'')"
  using field_roundtrip [of "''name''" IcuTool "''genrb''"] by simp

text \<open>
  C4, as amended. For every variant \<open>V\<close> of the module and all strings \<open>a\<close> and
  \<open>b\<close>, the records \<open>V(a)\<close> and \<open>V(b)\<close> are equal under \<^verbatim>\<open>==\<close> if and only if
  \<open>a = b\<close>, and unequal under \<^verbatim>\<open>!=\<close> if and only if \<open>a \<noteq> b\<close>. For values \<open>s1\<close>
  and \<open>s2\<close> of any kind, \<open>V(s1) == V(s2)\<close> holds if and only if \<open>s1\<close> is the same
  object as \<open>s2\<close> or \<open>s1 == s2\<close>: the comparison of tuples tests its items for
  identity before it tests them for equality.
\<close>

theorem same_variant_eq_iff:
  assumes "V \<in> set variants"
  shows "(\<exists>r1 r2. mk V (StrV a) = Inr r1 \<and> mk V (StrV b) = Inr r2 \<and>
            py_eq r1 r2 = (a = b) \<and> py_ne r1 r2 = (a \<noteq> b)) \<and>
         (\<exists>r1 r2. mk V s1 = Inr r1 \<and> mk V s2 = Inr r2 \<and>
            py_eq r1 r2 = same_or_eq s1 s2 \<and> py_ne r1 r2 = (\<not> same_or_eq s1 s2))"
proof -
  have "\<And>s. mk V s = Inr (TupleV (Some V) [s])"
    using assms by (rule mk_variant)
  then show ?thesis by (simp add: py_ne_def same_or_eq_def)
qed

theorem same_variant_eq_iff_witness:
  "InFile \<in> set variants \<and>
   (\<exists>r1 r2. mk InFile (StrV ''foo.txt'') = Inr r1 \<and> mk InFile (StrV ''foo.txt'') = Inr r2 \<and>
      py_eq r1 r2 \<and> \<not> py_ne r1 r2) \<and>
   (\<exists>r1 r2. mk InFile (StrV ''foo.txt'') = Inr r1 \<and> mk InFile (StrV ''bar.txt'') = Inr r2 \<and>
      \<not> py_eq r1 r2 \<and> py_ne r1 r2) \<and>
   (\<exists>r1 r2. mk InFile (NanV 0) = Inr r1 \<and> mk InFile (NanV 1) = Inr r2 \<and>
      \<not> py_eq r1 r2 \<and> py_ne r1 r2)"
proof -
  have a: "InFile \<in> set variants" by (simp add: variants_def)
  have same: "\<exists>r1 r2. mk InFile (StrV ''foo.txt'') = Inr r1 \<and>
      mk InFile (StrV ''foo.txt'') = Inr r2 \<and> py_eq r1 r2 \<and> \<not> py_ne r1 r2"
    using same_variant_eq_iff [OF a, of "''foo.txt''" "''foo.txt''" NoneV NoneV] by simp
  have other: "\<exists>r1 r2. mk InFile (StrV ''foo.txt'') = Inr r1 \<and>
      mk InFile (StrV ''bar.txt'') = Inr r2 \<and> \<not> py_eq r1 r2 \<and> py_ne r1 r2"
    using same_variant_eq_iff [OF a, of "''foo.txt''" "''bar.txt''" NoneV NoneV] by simp
  have nans: "\<exists>r1 r2. mk InFile (NanV 0) = Inr r1 \<and> mk InFile (NanV 1) = Inr r2 \<and>
      \<not> py_eq r1 r2 \<and> py_ne r1 r2"
    using same_variant_eq_iff [OF a, of "''a''" "''a''" "NanV 0" "NanV 1"]
    by (simp add: same_or_eq_def)
  from a same other nans show ?thesis by blast
qed

text \<open>
  C4 as stated fails for values that are not equal to themselves: with \<open>nan\<close> one NaN
  object, \<^verbatim>\<open>nan == nan\<close> is false, and \<^verbatim>\<open>InFile(nan) == InFile(nan)\<close> is true.
\<close>

theorem nan_records_equal:
  "mk InFile (NanV 0) = Inr (TupleV (Some InFile) [NanV 0]) \<and>
   \<not> py_eq (NanV 0) (NanV 0) \<and>
   py_eq (TupleV (Some InFile) [NanV 0]) (TupleV (Some InFile) [NanV 0]) \<and>
   \<not> py_ne (TupleV (Some InFile) [NanV 0]) (TupleV (Some InFile) [NanV 0])"
  by (simp add: mk_def nt_new_def py_ne_def InFile_def)

text \<open>
  C7. For every variant \<open>V\<close> of the module and every value \<open>s\<close>, the call \<open>V(s)\<close>
  returns a record and raises nothing, and the record holds \<open>s\<close> itself, unchanged;
  the empty string is accepted like any other value.
\<close>

theorem construction_never_fails:
  assumes "V \<in> set variants"
  shows "mk V s = Inr (TupleV (Some V) [s]) \<and>
         mk V (StrV []) = Inr (TupleV (Some V) [StrV []])"
  using mk_variant [OF assms] by simp

theorem construction_never_fails_witness:
  "InFile \<in> set variants \<and> mk InFile (StrV []) = Inr (TupleV (Some InFile) [StrV []]) \<and>
   mk InFile (IntV 3) = Inr (TupleV (Some InFile) [IntV 3])"
proof -
  have a: "InFile \<in> set variants" by (simp add: variants_def)
  show ?thesis using a construction_never_fails [OF a] by simp
qed

text \<open>
  C10. For every variant \<open>V\<close> of the module and every value \<open>s\<close>, the record
  \<open>V(s)\<close> has length 1 and its item at position 0 is \<open>s\<close>.
\<close>

theorem positional_access:
  assumes "V \<in> set variants"
  shows "\<exists>r. mk V s = Inr r \<and> py_getitem r 0 = Inr s \<and> py_len r = Inr 1"
  using mk_variant [OF assms, of s] by (simp add: tuple_item_def)

theorem positional_access_witness:
  "PkgFile \<in> set variants \<and>
   (\<exists>r. mk PkgFile (StrV ''a.res'') = Inr r \<and> py_getitem r 0 = Inr (StrV ''a.res'') \<and>
      py_len r = Inr 1)"
proof -
  have a: "PkgFile \<in> set variants" by (simp add: variants_def)
  show ?thesis using a positional_access [OF a, of "StrV ''a.res''"] by simp
qed

text \<open>
  C9. For every variant \<open>V\<close> of the module and every value \<open>s\<close>, the record \<open>V(s)\<close>
  compares equal to the plain one-element tuple \<open>(s,)\<close>, from either side.
\<close>

theorem record_eq_plain_tuple:
  assumes "V \<in> set variants"
  shows "\<exists>r. mk V s = Inr r \<and> py_eq r (TupleV None [s]) \<and> py_eq (TupleV None [s]) r"
  using mk_variant [OF assms, of s] py_eq_same_items by simp

theorem record_eq_plain_tuple_witness:
  "SystemTool \<in> set variants \<and>
   (\<exists>r. mk SystemTool (StrV ''make'') = Inr r \<and> py_eq r (TupleV None [StrV ''make'']) \<and>
      py_eq (TupleV None [StrV ''make'']) r)"
proof -
  have a: "SystemTool \<in> set variants" by (simp add: variants_def)
  show ?thesis using a record_eq_plain_tuple [OF a, of "StrV ''make''"] by simp
qed

subsection \<open>Hashing\<close>

text \<open>
  C6. For every variant \<open>V\<close> of the module and every hashable value \<open>s\<close>, under
  every hashing of a run: the record \<open>V(s)\<close> has a hash; the set display
  \<open>{V(s), V(s)}\<close> is a set of exactly one element; a dictionary takes the record as
  a key and finds the value stored under it; and every record of \<open>V\<close> that compares
  equal to \<open>V(s)\<close> has the same hash.
\<close>

theorem records_hashable:
  assumes "V \<in> set variants" and "hashable s"
  shows "\<exists>r h. mk V s = Inr r \<and> py_hash H r = Inr h \<and>
           set_display H [] [r, r] = Inr [(h, r)] \<and>
           dict_setitem H r v [] = Inr [(h, r, v)] \<and>
           dict_getitem H r [(h, r, v)] = Inr v \<and>
           (\<forall>s' r'. mk V s' = Inr r' \<and> py_eq r r' \<longrightarrow> py_hash H r' = Inr h)"
proof -
  let ?r = "TupleV (Some V) [s]"
  have r: "mk V s = Inr ?r"
    using assms(1) by (rule mk_variant)
  have "hashable ?r" using assms(2) by simp
  then obtain h where h: "py_hash H ?r = Inr h"
    using hashable_iff [of ?r H] by blast
  have same: "same_or_eq ?r ?r" by (rule same_or_eq_refl)
  have s: "set_display H [] [?r, ?r] = Inr [(h, ?r)]"
    using h same by (simp add: set_add_def)
  have d1: "dict_setitem H ?r v [] = Inr [(h, ?r, v)]"
    using h by (simp add: dict_setitem_def)
  have d2: "dict_getitem H ?r [(h, ?r, v)] = Inr v"
    using h same by (simp add: dict_getitem_def)
  have e: "\<forall>s' r'. mk V s' = Inr r' \<and> py_eq ?r r' \<longrightarrow> py_hash H r' = Inr h"
    using py_eq_hash [of ?r _ H] h by auto
  from r h s d1 d2 e show ?thesis by blast
qed

theorem records_hashable_witness:
  "DepTarget \<in> set variants \<and> hashable (StrV ''pkgA'') \<and>
   (\<exists>r h. mk DepTarget (StrV ''pkgA'') = Inr r \<and>
      py_hash example_hashing r = Inr h \<and>
      set_display example_hashing [] [r, r] = Inr [(h, r)])"
proof -
  have a: "DepTarget \<in> set variants" by (simp add: variants_def)
  have b: "hashable (StrV ''pkgA'')" by simp
  from records_hashable [OF a b, of example_hashing NoneV]
  have "\<exists>r h. mk DepTarget (StrV ''pkgA'') = Inr r \<and>
      py_hash example_hashing r = Inr h \<and>
      set_display example_hashing [] [r, r] = Inr [(h, r)]" by blast
  with a b show ?thesis by blast
qed

subsection \<open>Immutability\<close>

text \<open>
  C5, as amended. Let the object at address \<open>a\<close> be the record \<open>V(s)\<close> of a
  variant \<open>V\<close> of the module, and let an operation run on it: reading, assigning or
  deleting an attribute, reading, assigning or deleting an item, \<^verbatim>\<open>len\<close>,
  \<^verbatim>\<open>hash\<close>, \<^verbatim>\<open>==\<close>, \<^verbatim>\<open>!=\<close> or \<^verbatim>\<open>_replace\<close>. Whatever the operation, the
  object at \<open>a\<close> still holds \<open>s\<close> as its item afterwards, no other object has
  changed and nothing has been printed. Unless the operation is an assignment to
  \<^verbatim>\<open>__class__\<close>, the whole world is as it was, so the record also keeps the type
  \<open>V\<close> it was created with. Assigning to the field, or deleting it, raises
  \<^verbatim>\<open>AttributeError\<close> and leaves the world as it was.
\<close>

theorem record_immutable:
  assumes "V \<in> set variants" and "mk V s = Inr r" and "heap w a = r"
    and "exec H op a w = (res, w')"
  shows "py_getitem (heap w' a) 0 = Inr s \<and>
         (\<forall>b. b \<noteq> a \<longrightarrow> heap w' b = heap w b) \<and> printed w' = printed w \<and>
         (\<not> sets_class op \<longrightarrow> w' = w \<and> type_of (heap w' a) = NamedTuple V) \<and>
         (\<forall>f v. f \<in> set (field_names V) \<longrightarrow>
            exec H (SetAttr f v) a w = (Inl AttributeError, w) \<and>
            exec H (DelAttr f) a w = (Inl AttributeError, w))"
proof -
  have r: "r = TupleV (Some V) [s]"
    using mk_variant [OF assms(1), of s] assms(2) by simp
  then have h: "heap w a = TupleV (Some V) [s]"
    using assms(3) by simp
  have fields: "\<And>f. f \<in> set (field_names V) \<Longrightarrow> f \<noteq> ''__class__''"
    using variants_one_field [OF assms(1)] by auto
  from exec_record_cases [OF h assms(4)]
  have 1: "py_getitem (heap w' a) 0 = Inr s"
    and 2: "\<forall>b. b \<noteq> a \<longrightarrow> heap w' b = heap w b"
    and 3: "printed w' = printed w"
    and 4: "\<not> sets_class op \<longrightarrow> w' = w \<and> type_of (heap w' a) = NamedTuple V"
    using h by (auto simp: tuple_item_def)
  have 5: "\<forall>f v. f \<in> set (field_names V) \<longrightarrow>
            exec H (SetAttr f v) a w = (Inl AttributeError, w) \<and>
            exec H (DelAttr f) a w = (Inl AttributeError, w)"
    using h fields by (auto simp: written_def)
  from 1 2 3 4 5 show ?thesis by blast
qed

theorem record_immutable_witness:
  "InFile \<in> set variants \<and> mk InFile (StrV ''x'') = Inr (heap example_world 0) \<and>
   exec example_hashing (SetAttr ''filename'' (StrV ''y'')) 0 example_world =
     (Inl AttributeError, example_world) \<and>
   py_getitem (heap example_world 0) 0 = Inr (StrV ''x'') \<and>
   type_of (heap example_world 0) = NamedTuple InFile"
proof -
  have a: "InFile \<in> set variants" by (simp add: variants_def)
  have b: "mk InFile (StrV ''x'') = Inr (heap example_world 0)"
    by (simp add: mk_def nt_new_def example_world_def InFile_def)
  have c: "exec example_hashing (SetAttr ''filename'' (StrV ''y'')) 0 example_world =
      (Inl AttributeError, example_world)"
    by (simp add: example_world_def written_def)
  from record_immutable [OF a b refl c]
  have "py_getitem (heap example_world 0) 0 = Inr (StrV ''x'') \<and>
        type_of (heap example_world 0) = NamedTuple InFile"
    by simp
  with a b c show ?thesis by blast
qed

text \<open>
  C5 as stated fails in its clause on the variant type. Assignment to an attribute is
  among the operations the claim speaks of, and the object at address 0 of the example
  world is \<^verbatim>\<open>InFile("x")\<close>: the assignment \<^verbatim>\<open>obj.__class__ = OutFile\<close> returns
  without raising, and afterwards the object at address 0 is an \<open>OutFile\<close> with the
  same item.
\<close>

theorem class_can_be_reassigned:
  "mk InFile (StrV ''x'') = Inr (heap example_world 0) \<and>
   type_of (heap example_world 0) = NamedTuple InFile \<and>
   exec example_hashing (SetAttr ''__class__'' (ClassV (NamedTuple OutFile))) 0 example_world =
     (Inr NoneV,
      example_world\<lparr>heap := (heap example_world)(0 := TupleV (Some OutFile) [StrV ''x''])\<rparr>) \<and>
   type_of (TupleV (Some OutFile) [StrV ''x'']) = NamedTuple OutFile \<and>
   NamedTuple InFile \<noteq> NamedTuple OutFile"
  by (simp add: example_world_def written_def mk_def nt_new_def InFile_def OutFile_def)

end
